theory Spec2Isabelle
  imports Complex_Main "HOL-Library.Log_Nat"
begin

section \<open>Residue colouring by score: \<^verbatim>\<open>pdb_color_generic.py\<close>\<close>

text \<open>
  The script reads a table of per-residue scores (\<^verbatim>\<open>read_generic_data\<close>), derives bin
  boundaries from the scores and prints a PyMOL script (\<^verbatim>\<open>make_output_script\<close>).

  Modelling conventions.
  \<^item> A Python \<^verbatim>\<open>float\<close> is a \<^typ>\<open>real\<close>: arithmetic is exact, and the rounding of
    machine floats is not modelled. Concrete inputs below are dyadic wherever a comparison
    could depend on it.
  \<^item> A \<^verbatim>\<open>dict\<close> is an association list in insertion order (Python 3.7 and later), since
    the script reads \<^verbatim>\<open>.values()\<close> and \<^verbatim>\<open>.keys()\<close> in order.
  \<^item> An uncaught exception is a value of \<open>error\<close>; a local variable that a branch may
    leave unbound is an \<open>option\<close>.
  \<^item> The text written to \<^verbatim>\<open>wayout\<close> is a list of directives, one per \<^verbatim>\<open>write\<close> call,
    with the fields of each format string kept as data.
\<close>

datatype error =
    IndexError | ValueError | OverflowError | NameError | KeyError
  | ArangeError \<comment> \<open>\<^verbatim>\<open>numpy.arange\<close> with step 0 cannot compute a length\<close>

subsection \<open>Python and numpy primitives\<close>

text \<open>
  \<^verbatim>\<open>xs[i]\<close> on a list: positions \<open>0 .. len - 1\<close> from the front, \<open>-1 .. -len\<close> from the back,
  \<^verbatim>\<open>IndexError\<close> for any other \<open>i\<close>.
\<close>

definition py_index :: "'a list \<Rightarrow> int \<Rightarrow> error + 'a" where
  "py_index xs i =
     (if 0 \<le> i \<and> i < int (length xs) then Inr (xs ! nat i)
      else if i < 0 \<and> - int (length xs) \<le> i then Inr (xs ! nat (int (length xs) + i))
      else Inl IndexError)"

text \<open>\<^verbatim>\<open>d.get(k, dflt)\<close> and \<^verbatim>\<open>d[k] = v\<close> on an insertion-ordered dict.\<close>

definition dict_get :: "('k \<times> 'v) list \<Rightarrow> 'k \<Rightarrow> 'v \<Rightarrow> 'v" where
  "dict_get d k dflt = (case map_of d k of None \<Rightarrow> dflt | Some v \<Rightarrow> v)"

fun dict_set :: "('k \<times> 'v) list \<Rightarrow> 'k \<Rightarrow> 'v \<Rightarrow> ('k \<times> 'v) list" where
  "dict_set [] k v = [(k, v)]"
| "dict_set ((k', v') # d) k v =
     (if k' = k then (k, v) # d else (k', v') # dict_set d k v)"

text \<open>\<^verbatim>\<open>int(x)\<close> on a float truncates towards zero.\<close>

definition py_int :: "real \<Rightarrow> int" where
  "py_int x = (if 0 \<le> x then \<lfloor>x\<rfloor> else \<lceil>x\<rceil>)"

text \<open>
  \<^verbatim>\<open>int(numpy.floor(numpy.log10(x)))\<close> for \<open>x > 0\<close>, computed on the digits so that it can
  be evaluated; \<open>floor_log10_is_floor_log\<close> below shows that it is \<open>\<lfloor>log 10 x\<rfloor>\<close>.
\<close>

definition floor_log10 :: "real \<Rightarrow> int" where
  "floor_log10 x =
     (if 1 \<le> x then int (floorlog 10 (nat \<lfloor>x\<rfloor>)) - 1
      else - int (floorlog 10 (nat (\<lceil>1 / x\<rceil> - 1))))"

text \<open>\<^verbatim>\<open>numpy.rint\<close>: round to the nearest integer, ties to the even one.\<close>

definition rint :: "real \<Rightarrow> int" where
  "rint x =
     (let f = \<lfloor>x\<rfloor>; r = x - of_int f
      in if r < 1 / 2 then f
         else if 1 / 2 < r then f + 1
         else if even f then f else f + 1)"

text \<open>\<^verbatim>\<open>numpy.around(x, decimals=d)\<close> for \<open>d \<ge> 0\<close>: scale, \<^verbatim>\<open>rint\<close>, scale back.\<close>

definition around :: "real \<Rightarrow> nat \<Rightarrow> real" where
  "around x decimals = of_int (rint (x * 10 ^ decimals)) / 10 ^ decimals"

text \<open>
  \<^verbatim>\<open>numpy.arange(start, stop, step).tolist()\<close>: \<open>\<lceil>(stop - start) / step\<rceil>\<close> values
  \<open>start + i * step\<close>, none when that length is not positive.
\<close>

definition arange :: "real \<Rightarrow> real \<Rightarrow> real \<Rightarrow> error + real list" where
  "arange start stop step =
     (if step = 0 then Inl ArangeError
      else Inr (map (\<lambda>i. start + real i * step) [0..<nat \<lceil>(stop - start) / step\<rceil>]))"

text \<open>\<^verbatim>\<open>numpy.median\<close> of a non-empty list.\<close>

definition median :: "real list \<Rightarrow> real" where
  "median xs =
     (let s = sort xs; n = length s
      in if even n then (s ! (n div 2 - 1) + s ! (n div 2)) / 2 else s ! (n div 2))"

subsection \<open>The score table and the collection the bins are derived from\<close>

type_synonym score_table = "(string \<times> (int \<times> real) list) list"

text \<open>
  Line 172:
  \<^verbatim>\<open>all_scores = list( itertools.chain( list(rd.values()) for rd in scoredict.values() ) )[0]\<close>.
  \<^verbatim>\<open>itertools.chain\<close> receives ONE iterable, the generator of the per-chain lists, so it
  yields those lists unchanged; \<^verbatim>\<open>[0]\<close> then takes the first of them.
\<close>

definition chain_values :: "score_table \<Rightarrow> real list list" where
  "chain_values scoredict = map (\<lambda>(chain, rd). map snd rd) scoredict"

definition all_scores :: "score_table \<Rightarrow> error + real list" where
  "all_scores scoredict =
     (case chain_values scoredict of [] \<Rightarrow> Inl IndexError | first # others \<Rightarrow> Inr first)"

text \<open>The flattened collection of every chain's scores, which the specification names.\<close>

definition flattened_scores :: "score_table \<Rightarrow> real list" where
  "flattened_scores scoredict = concat (chain_values scoredict)"

subsection \<open>Bin boundaries (lines 174 to 235)\<close>

record bin_locals =
  lowest_val :: real
  highest_val :: real
  val_range :: real
  median_val :: real
  round_low :: real \<comment> \<open>\<^verbatim>\<open>round_range[0]\<close> after the correction of line 195\<close>
  round_high :: real \<comment> \<open>\<^verbatim>\<open>round_range[1]\<close>\<close>
  rounded_diff :: real
  round_correction :: real
  magnitude :: int \<comment> \<open>after the adjustment of line 198\<close>
  binvalues :: "real list option" \<comment> \<open>\<open>None\<close>: no branch bound the name\<close>
  defaultindex :: "int option"
  binname_correction :: real

text \<open>Lines 204 to 208, the branch \<^verbatim>\<open>lowest_val >= 0\<close>.\<close>

definition sequential_bins :: "real \<Rightarrow> real \<Rightarrow> real \<Rightarrow> real \<Rightarrow> error + real list" where
  "sequential_bins rr0 rr1 rdiff rcorr =
     (let last_bin = rr1 + rcorr; rounded_step = rdiff / 8
      in case arange rr0 (rr1 + rounded_step) rounded_step of
           Inl e \<Rightarrow> Inl e
         | Inr bs \<Rightarrow>
             (case py_index (bs @ [last_bin]) 1 of
                Inl e \<Rightarrow> Inl e
              | Inr second \<Rightarrow> Inr (bs @ [last_bin])))"

text \<open>Lines 217 to 224, the branch \<^verbatim>\<open>lowest_val < 0 and highest_val > 0\<close>.\<close>

definition diverging_bins :: "real \<Rightarrow> real \<Rightarrow> real \<Rightarrow> real \<Rightarrow> error + real list" where
  "diverging_bins rr0 rr1 rcorr ZEROOVERRIDE =
     (let low_step = \<bar>rr0 / 4\<bar>
      in case arange rr0 (ZEROOVERRIDE + rcorr / 10) low_step of
           Inl e \<Rightarrow> Inl e
         | Inr low_set \<Rightarrow>
             (let high_step = rr1 / 4
              in case arange (ZEROOVERRIDE + rcorr / 10) (rr1 + high_step) high_step of
                   Inl e \<Rightarrow> Inl e
                 | Inr high_set \<Rightarrow> Inr (low_set @ high_set)))"

text \<open>
  Lines 202 to 233: the three branches on the sign pattern. Each yields the value of
  \<^verbatim>\<open>binvalues\<close> (unbound in the third branch) and of \<^verbatim>\<open>defaultindex\<close>, which line 188
  has bound already when an override was given.
\<close>

definition branch_bins ::
  "real \<Rightarrow> real \<Rightarrow> real \<Rightarrow> real \<Rightarrow> real \<Rightarrow> real \<Rightarrow> int option \<Rightarrow> real
     \<Rightarrow> error + (real list option \<times> int option)" where
  "branch_bins lowest highest rr0 rr1 rdiff rcorr default_chain_grp ZEROOVERRIDE =
     (if 0 \<le> lowest then
        (case sequential_bins rr0 rr1 rdiff rcorr of
           Inl e \<Rightarrow> Inl e
         | Inr bs \<Rightarrow>
             Inr (Some bs, if default_chain_grp = None then Some 0 else default_chain_grp))
      else if lowest < 0 \<and> 0 < highest then
        (case diverging_bins rr0 rr1 rcorr ZEROOVERRIDE of
           Inl e \<Rightarrow> Inl e
         | Inr bs \<Rightarrow>
             Inr (Some bs, if default_chain_grp = None then Some 4 else default_chain_grp))
      else if highest \<le> 0 then
        Inr (None, if default_chain_grp = None then Some 8 else default_chain_grp)
      else Inr (None, default_chain_grp))"

text \<open>
  Lines 174 to 235. \<^verbatim>\<open>min\<close> of an empty list raises \<^verbatim>\<open>ValueError\<close>; a range of 0 gives
  \<^verbatim>\<open>log10(0) = -inf\<close>, and \<^verbatim>\<open>int(-inf)\<close> raises \<^verbatim>\<open>OverflowError\<close>.
\<close>

definition make_bins :: "real list \<Rightarrow> int option \<Rightarrow> real \<Rightarrow> error + bin_locals" where
  "make_bins scores default_chain_grp ZEROOVERRIDE =
     (if scores = [] then Inl ValueError
      else
        let lowest = Min (set scores);
            highest = Max (set scores);
            vrange = highest - lowest
        in if vrange = 0 then Inl OverflowError
           else if vrange < 0 then Inl ValueError
           else
             let mag = floor_log10 vrange;
                 decimals = nat \<bar>min mag 0\<bar>;
                 r0 = around lowest decimals;
                 r1 = around highest decimals;
                 rdiff = r1 - r0;
                 rcorr = 10 powi mag;
                 r0c = (if lowest < r0 then r0 - rcorr else r0);
                 mag2 = (if 1 < vrange \<and> vrange < 8 then mag - 1 else mag)
             in case branch_bins lowest highest r0c r1 rdiff rcorr default_chain_grp ZEROOVERRIDE of
                  Inl e \<Rightarrow> Inl e
                | Inr (bv, di) \<Rightarrow>
                    Inr \<lparr> lowest_val = lowest, highest_val = highest, val_range = vrange,
                          median_val = median scores, round_low = r0c, round_high = r1,
                          rounded_diff = rdiff, round_correction = rcorr, magnitude = mag2,
                          binvalues = bv, defaultindex = di,
                          binname_correction = 10 / 10 powi mag2 \<rparr>)"

subsection \<open>Colour schemes (lines 123 to 167)\<close>

definition colors_red :: "real list list" where
  "colors_red =
     [[0.63, 0.63, 0.63], [0.73, 0.55, 0.55], [0.75, 0.47, 0.47],
      [0.77, 0.38, 0.38], [0.79, 0.29, 0.29], [0.82, 0.21, 0.21],
      [0.84, 0.13, 0.13], [0.88, 0, 0], [1, 0, 0.55]]"

definition colors_yellow :: "real list list" where
  "colors_yellow =
     [[0.63, 0.63, 0.63], [0.66, 0.67, 0.51], [0.68, 0.71, 0.43],
      [0.70, 0.73, 0.36], [0.72, 0.76, 0.28], [0.74, 0.80, 0.20],
      [0.76, 0.83, 0.12], [0.79, 0.87, 0.00], [1, 0.8, 0.16]]"

definition colors_blue :: "real list list" where
  "colors_blue =
     [[0.63, 0.63, 0.63], [0.50, 0.58, 0.68], [0.42, 0.55, 0.71],
      [0.35, 0.52, 0.73], [0.28, 0.49, 0.76], [0.20, 0.46, 0.80],
      [0.12, 0.43, 0.83], [0.00, 0.38, 0.87], [0.6, 0, 1]]"

definition colors_green :: "real list list" where
  "colors_green =
     [[0.63, 0.63, 0.63], [0.50, 0.68, 0.56], [0.42, 0.71, 0.53],
      [0.35, 0.74, 0.49], [0.26, 0.77, 0.44], [0.19, 0.80, 0.41],
      [0.12, 0.83, 0.37], [0.01, 0.87, 0.31], [0, 1, 0.83]]"

definition colors_div1w :: "real list list" where
  "colors_div1w =
     [[0.55, 0.32, 0.04], [0.75, 0.51, 0.18], [0.87, 0.76, 0.49],
      [0.96, 0.91, 0.76], [0.96, 0.96, 0.96], [0.78, 0.92, 0.90],
      [0.50, 0.80, 0.76], [0.21, 0.59, 0.56], [0.00, 0.40, 0.37]]"

definition colors_div1b :: "real list list" where
  "colors_div1b =
     [[0.87, 0.76, 0.49], [0.75, 0.51, 0.18], [0.55, 0.32, 0.04],
      [0.33, 0.19, 0.02], [0.24, 0.24, 0.24], [0.00, 0.40, 0.37],
      [0.21, 0.59, 0.56], [0.50, 0.80, 0.76], [0.78, 0.92, 0.90]]"

definition colors_div2w :: "real list list" where
  "colors_div2w =
     [[0.70, 0.09, 0.17], [0.84, 0.38, 0.30], [0.96, 0.65, 0.51],
      [0.99, 0.86, 0.78], [0.97, 0.97, 0.97], [0.82, 0.90, 0.94],
      [0.57, 0.77, 0.87], [0.26, 0.58, 0.76], [0.13, 0.40, 0.67]]"

definition colors_div2b :: "real list list" where
  "colors_div2b =
     [[0.96, 0.65, 0.51], [0.84, 0.38, 0.30], [0.70, 0.09, 0.17],
      [0.40, 0.00, 0.12], [0.24, 0.24, 0.24], [0.02, 0.19, 0.38],
      [0.13, 0.40, 0.67], [0.26, 0.58, 0.76], [0.57, 0.77, 0.87]]"

definition colors :: "string \<Rightarrow> real list list option" where
  "colors =
     map_of [(''red'', colors_red), (''yellow'', colors_yellow), (''blue'', colors_blue),
             (''green'', colors_green), (''div1w'', colors_div1w), (''div1b'', colors_div1b),
             (''div2w'', colors_div2w), (''div2b'', colors_div2b)]"

definition insuf_color :: "real list" where
  "insuf_color = [0.75, 0.75, 0.58]"

subsection \<open>The script written to \<^verbatim>\<open>wayout\<close> (lines 240 to 279)\<close>

text \<open>
  A colour name is \<^verbatim>\<open>"{}{:02d}".format(basecolor, n)\<close> and a selection name is
  \<^verbatim>\<open>"{:02d}_{}_{}_{}".format(n, groupname, i+1, chain)\<close>; both are kept as their fields.
\<close>

type_synonym colorname = "string \<times> int"
type_synonym binname = "int \<times> string \<times> nat \<times> string"

datatype directive =
    HideEverything \<comment> \<open>\<^verbatim>\<open>hide everything\<close>\<close>
  | ShowCartoon \<comment> \<open>\<^verbatim>\<open>show cartoon\<close>\<close>
  | SetColorDefault "real list" \<comment> \<open>\<^verbatim>\<open>set_color colordefault, [..]\<close>\<close>
  | ColorDefaultAll \<comment> \<open>\<^verbatim>\<open>color colordefault, all\<close>\<close>
  | SetColor colorname "real list" \<comment> \<open>\<^verbatim>\<open>set_color NAME, [..]\<close>\<close>
  | ColorChain colorname string \<comment> \<open>\<^verbatim>\<open>color NAME, chain C\<close>\<close>
  | Select binname string "int list" \<comment> \<open>\<^verbatim>\<open>select BIN, (chain C & resi ..)\<close>\<close>
  | ColorSelection colorname binname \<comment> \<open>\<^verbatim>\<open>color NAME, BIN\<close>\<close>

text \<open>What has been written, and the exception that stopped the run, if any.\<close>

type_synonym script = "directive list \<times> error option"

text \<open>A \<^verbatim>\<open>for\<close> loop whose body writes directives and may raise.\<close>

fun run_all :: "('a \<Rightarrow> script) \<Rightarrow> 'a list \<Rightarrow> script" where
  "run_all body [] = ([], None)"
| "run_all body (x # xs) =
     (case body x of
        (out, Some e) \<Rightarrow> (out, Some e)
      | (out, None) \<Rightarrow> (case run_all body xs of (out', e) \<Rightarrow> (out @ out', e)))"

text \<open>Lines 251 to 253: one colour definition per palette entry.\<close>

definition set_color :: "string \<Rightarrow> real list \<Rightarrow> real \<Rightarrow> nat \<times> real list \<Rightarrow> script" where
  "set_color basecolor bv corr = (\<lambda>(i, rgb).
     case py_index bv (int i) of
       Inl e \<Rightarrow> ([], Some e)
     | Inr b \<Rightarrow> ([SetColor (basecolor, py_int (b * corr)) rgb], None))"

text \<open>
  Lines 262 to 266: the scan over \<^verbatim>\<open>enumerate(binvalues[:-1])\<close> with
  \<^verbatim>\<open>upper = binvalues[i+1]\<close>, left at the first bin whose upper boundary exceeds the score.
\<close>

fun scan_bins :: "real list \<Rightarrow> (nat \<times> real) list \<Rightarrow> real \<Rightarrow> (nat \<times> real) option" where
  "scan_bins bv [] residuescore = None"
| "scan_bins bv ((i, v) # rest) residuescore =
     (if residuescore < bv ! (i + 1) then Some (i, v) else scan_bins bv rest residuescore)"

definition find_bin :: "real list \<Rightarrow> real \<Rightarrow> (nat \<times> real) option" where
  "find_bin bv residuescore = scan_bins bv (enumerate 0 (butlast bv)) residuescore"

text \<open>
  Lines 260 to 266 for one residue: \<^verbatim>\<open>scoregroups\<close> is a \<^verbatim>\<open>defaultdict(list)\<close> keyed by
  the lower boundary of the bin.
\<close>

definition assign_residue ::
  "real list \<Rightarrow> (int \<times> real) list \<Rightarrow> int \<Rightarrow> (real \<Rightarrow> int list) \<Rightarrow> int \<Rightarrow> (real \<Rightarrow> int list)" where
  "assign_residue bv rd chainoffset scoregroups residue =
     (let residuescore = dict_get rd residue 0
      in case find_bin bv residuescore of
           None \<Rightarrow> scoregroups
         | Some (i, v) \<Rightarrow> scoregroups (v := scoregroups v @ [residue - chainoffset]))"

definition assign_residues ::
  "real list \<Rightarrow> (int \<times> real) list \<Rightarrow> int \<Rightarrow> (real \<Rightarrow> int list)" where
  "assign_residues bv rd chainoffset =
     foldl (assign_residue bv rd chainoffset) (\<lambda>v. []) (map fst rd)"

text \<open>Lines 271 to 279 for one bin.\<close>

definition bin_command ::
  "string \<Rightarrow> string \<Rightarrow> bool \<Rightarrow> string \<Rightarrow> real \<Rightarrow> int \<Rightarrow> (real \<Rightarrow> int list)
     \<Rightarrow> nat \<times> real \<Rightarrow> directive list" where
  "bin_command chain groupname exclude_common basecolor corr di scoregroups = (\<lambda>(i, v).
     if int i = di \<and> exclude_common then []
     else
       let binname = (py_int (v * corr), groupname, i + 1, chain);
           resilist = scoregroups v
       in if resilist \<noteq> []
          then [Select binname chain resilist,
                ColorSelection (basecolor, py_int (v * corr)) binname]
          else [])"

text \<open>
  Lines 257 to 279 for one chain. \<^verbatim>\<open>scoredict\<close> is the \<^verbatim>\<open>defaultdict(dict)\<close> that the
  reader returns, so a chain without scores reads as the empty dict.
\<close>

definition chain_script ::
  "score_table \<Rightarrow> (string \<times> int) list \<Rightarrow> string \<Rightarrow> bool \<Rightarrow> string \<Rightarrow> real list
     \<Rightarrow> int option \<Rightarrow> real \<Rightarrow> string \<Rightarrow> script" where
  "chain_script scoredict refoffsets groupname exclude_common basecolor bv dindex corr chain =
     (let chainoffset = dict_get refoffsets chain 0;
          scoregroups = assign_residues bv (dict_get scoredict chain []) chainoffset
      in case dindex of
           None \<Rightarrow> ([], Some NameError)
         | Some di \<Rightarrow>
             (case py_index bv di of
                Inl e \<Rightarrow> ([], Some e)
              | Inr dv \<Rightarrow>
                  (ColorChain (basecolor, py_int (dv * corr)) chain
                   # concat (map (bin_command chain groupname exclude_common basecolor corr di
                                    scoregroups)
                               (enumerate 0 (butlast bv))),
                   None)))"

text \<open>
  \<^verbatim>\<open>make_output_script\<close>, without the messages it writes to \<^verbatim>\<open>stderr\<close>. The message of
  line 240 formats \<^verbatim>\<open>binvalues\<close> and so raises \<^verbatim>\<open>NameError\<close> when no branch bound it.
\<close>

definition make_output_script ::
  "score_table \<Rightarrow> (string \<times> string) list \<Rightarrow> (string \<times> int) list \<Rightarrow> string \<Rightarrow> bool
     \<Rightarrow> int option \<Rightarrow> string \<Rightarrow> bool \<Rightarrow> real \<Rightarrow> script" where
  "make_output_script scoredict keepchains refoffsets groupname exclude_common
       default_chain_grp basecolor reverse_colors ZEROOVERRIDE =
     (case all_scores scoredict of
        Inl e \<Rightarrow> ([], Some e)
      | Inr scores \<Rightarrow>
     (case make_bins scores default_chain_grp ZEROOVERRIDE of
        Inl e \<Rightarrow> ([], Some e)
      | Inr b \<Rightarrow>
     (case binvalues b of
        None \<Rightarrow> ([], Some NameError)
      | Some bv \<Rightarrow>
     (let header = [HideEverything, ShowCartoon, SetColorDefault insuf_color, ColorDefaultAll]
      in case colors basecolor of
           None \<Rightarrow> (header, Some KeyError)
         | Some palette \<Rightarrow>
             (let targetcolors = (if reverse_colors then rev palette else palette)
              in case run_all (set_color basecolor bv (binname_correction b))
                        (enumerate 0 targetcolors) of
                   (defs, Some e) \<Rightarrow> (header @ defs, Some e)
                 | (defs, None) \<Rightarrow>
                     (case run_all
                             (chain_script scoredict refoffsets groupname exclude_common
                                basecolor bv (defaultindex b) (binname_correction b))
                             (map fst keepchains) of
                        (body, e) \<Rightarrow> (header @ defs @ body, e)))))))"

text \<open>The residues that a script selects, each with its chain, in the order written.\<close>

definition selected :: "directive list \<Rightarrow> (string \<times> int) list" where
  "selected ds =
     concat (map (\<lambda>d. case d of Select binname chain resilist \<Rightarrow> map (Pair chain) resilist
                        | _ \<Rightarrow> []) ds)"

subsection \<open>The score reader \<^verbatim>\<open>read_generic_data\<close> (lines 57 to 87)\<close>

text \<open>
  \<^verbatim>\<open>str.strip()\<close> removes the ASCII whitespace at both ends; \<^verbatim>\<open>str.split(d)\<close> cuts at every
  occurrence of the separator \<open>d\<close>, left to right, and refuses an empty separator.
\<close>

definition is_space :: "char \<Rightarrow> bool" where
  "is_space c \<longleftrightarrow>
     c \<in> set [CHR '' '', CHR 0x09, CHR 0x0A, CHR 0x0B, CHR 0x0C, CHR 0x0D,
              CHR 0x1C, CHR 0x1D, CHR 0x1E, CHR 0x1F]"

definition py_strip :: "string \<Rightarrow> string" where
  "py_strip s = rev (dropWhile is_space (rev (dropWhile is_space s)))"

fun split_go :: "string \<Rightarrow> nat \<Rightarrow> string \<Rightarrow> string \<Rightarrow> string list" where
  "split_go d skip acc [] = [rev acc]"
| "split_go d (Suc k) acc (c # cs) = split_go d k acc cs"
| "split_go d 0 acc (c # cs) =
     (if take (length d) (c # cs) = d then rev acc # split_go d (length d - 1) [] cs
      else split_go d 0 (c # acc) cs)"

definition py_split :: "string \<Rightarrow> string \<Rightarrow> error + string list" where
  "py_split s d = (if d = [] then Inl ValueError else Inr (split_go d 0 [] s))"

text \<open>
  \<^verbatim>\<open>float(s)\<close>. The result is a finite value, an infinity or a NaN; \<open>None\<close> stands for the
  \<^verbatim>\<open>ValueError\<close> of a string outside the grammar
  \<^verbatim>\<open>[sign] (digitpart ["." [digitpart]] | "." digitpart) [("e"|"E") [sign] digitpart]\<close>,
  \<^verbatim>\<open>[sign] ("inf" | "infinity" | "nan")\<close> in any letter case, with surrounding whitespace
  ignored and single underscores allowed between digits. A finite value is the exact
  decimal, not its nearest machine float.
\<close>

datatype pyfloat = Fin real | PosInf | NegInf | NaN

definition is_digit :: "char \<Rightarrow> bool" where
  "is_digit c \<longleftrightarrow> c \<in> set ''0123456789''"

definition digit_val :: "char \<Rightarrow> nat" where
  "digit_val c = of_char c - 48"

fun digitpart_ok :: "string \<Rightarrow> bool" where
  "digitpart_ok [] = False"
| "digitpart_ok [c] = is_digit c"
| "digitpart_ok (c # u # cs) =
     (is_digit c \<and> (if u = CHR ''_'' then digitpart_ok cs else digitpart_ok (u # cs)))"

definition digits_val :: "string \<Rightarrow> nat" where
  "digits_val s = foldl (\<lambda>n c. 10 * n + digit_val c) 0 (filter is_digit s)"

definition word_is :: "string \<Rightarrow> string \<Rightarrow> string \<Rightarrow> bool" where
  "word_is s lower upper \<longleftrightarrow> list_all2 (\<lambda>c (l, u). c = l \<or> c = u) s (zip lower upper)"

definition strip_sign :: "string \<Rightarrow> bool \<times> string" where
  "strip_sign s =
     (case s of
        [] \<Rightarrow> (False, [])
      | c # cs \<Rightarrow>
          if c = CHR ''-'' then (True, cs) else if c = CHR ''+'' then (False, cs) else (False, s))"

definition parse_number :: "string \<Rightarrow> real option" where
  "parse_number m =
     (let ip = takeWhile (\<lambda>c. c \<noteq> CHR ''.'') m;
          rest = dropWhile (\<lambda>c. c \<noteq> CHR ''.'') m
      in if rest = [] then (if digitpart_ok ip then Some (real (digits_val ip)) else None)
         else
           let fp = tl rest
           in if (ip = [] \<and> digitpart_ok fp) \<or> (digitpart_ok ip \<and> (fp = [] \<or> digitpart_ok fp))
              then Some (real (digits_val ip)
                         + real (digits_val fp) / 10 ^ length (filter is_digit fp))
              else None)"

definition parse_exponent :: "string \<Rightarrow> int option" where
  "parse_exponent s =
     (case strip_sign s of
        (neg, ds) \<Rightarrow>
          if digitpart_ok ds
          then Some (if neg then - int (digits_val ds) else int (digits_val ds))
          else None)"

definition parse_floatnumber :: "string \<Rightarrow> real option" where
  "parse_floatnumber s =
     (let is_e = (\<lambda>c. c = CHR ''e'' \<or> c = CHR ''E'');
          m = takeWhile (\<lambda>c. \<not> is_e c) s;
          rest = dropWhile (\<lambda>c. \<not> is_e c) s
      in case parse_number m of
           None \<Rightarrow> None
         | Some x \<Rightarrow>
             if rest = [] then Some x
             else (case parse_exponent (tl rest) of
                     None \<Rightarrow> None
                   | Some ex \<Rightarrow> Some (x * 10 powi ex)))"

definition parse_float :: "string \<Rightarrow> pyfloat option" where
  "parse_float raw =
     (case strip_sign (py_strip raw) of
        (neg, s) \<Rightarrow>
          if word_is s ''inf'' ''INF'' \<or> word_is s ''infinity'' ''INFINITY''
          then Some (if neg then NegInf else PosInf)
          else if word_is s ''nan'' ''NAN'' then Some NaN
          else (case parse_floatnumber s of
                  None \<Rightarrow> None
                | Some x \<Rightarrow> Some (Fin (if neg then - x else x))))"

text \<open>
  \<^verbatim>\<open>int(float(s))\<close>: \<^verbatim>\<open>int\<close> truncates a finite value, raises \<^verbatim>\<open>ValueError\<close> on a NaN and
  \<^verbatim>\<open>OverflowError\<close> on an infinity.
\<close>

definition int_of_float :: "pyfloat \<Rightarrow> error + int" where
  "int_of_float f =
     (case f of
        Fin x \<Rightarrow> Inr (py_int x)
      | NaN \<Rightarrow> Inl ValueError
      | PosInf \<Rightarrow> Inl OverflowError
      | NegInf \<Rightarrow> Inl OverflowError)"

definition int_float :: "string \<Rightarrow> error + int" where
  "int_float s = (case parse_float s of None \<Rightarrow> Inl ValueError | Some f \<Rightarrow> int_of_float f)"

type_synonym raw_table = "(string \<times> (int \<times> pyfloat) list) list"

record reader_state =
  rawscore_dict :: raw_table
  linecounter :: nat
  foundscores :: nat
  columnmax :: nat

text \<open>
  Lines 65 to 82, the body of the loop for one line of the file: \<open>store_row\<close> is lines
  76 to 82. Only the \<^verbatim>\<open>ValueError\<close> of \<^verbatim>\<open>int(float(sitecol))\<close> is caught; the handler is
  \<^verbatim>\<open>continue\<close>.
\<close>

definition store_row ::
  "int \<Rightarrow> int option \<Rightarrow> string \<Rightarrow> reader_state \<Rightarrow> string list \<Rightarrow> int
     \<Rightarrow> error + reader_state" where
  "store_row scorecolumn chaincolumn defaultchain st1 lsplits site =
     (case py_index lsplits scorecolumn of
        Inl e \<Rightarrow> Inl e
      | Inr scorecol \<Rightarrow>
          (case parse_float scorecol of
             None \<Rightarrow> Inl ValueError
           | Some score \<Rightarrow>
               (case (case chaincolumn of
                        Some c \<Rightarrow> py_index lsplits c
                      | None \<Rightarrow> Inr defaultchain) of
                  Inl e \<Rightarrow> Inl e
                | Inr chain \<Rightarrow>
                    Inr (st1 \<lparr> rawscore_dict :=
                                 dict_set (rawscore_dict st1) chain
                                   (dict_set (dict_get (rawscore_dict st1) chain []) site score),
                               foundscores := foundscores st1 + 1 \<rparr>))))"

definition read_line ::
  "string \<Rightarrow> int \<Rightarrow> int \<Rightarrow> int option \<Rightarrow> string \<Rightarrow> reader_state \<Rightarrow> string
     \<Rightarrow> error + reader_state" where
  "read_line delimiter scorecolumn sitecolumn chaincolumn defaultchain st raw =
     (let line = py_strip raw
      in if line \<noteq> [] \<and> hd line \<noteq> CHR ''#'' then
           (case py_split line delimiter of
              Inl e \<Rightarrow> Inl e
            | Inr lsplits \<Rightarrow>
                (let st1 = st \<lparr> linecounter := linecounter st + 1,
                                columnmax := max (columnmax st) (length lsplits) \<rparr>
                 in case py_index lsplits sitecolumn of
                      Inl e \<Rightarrow> Inl e
                    | Inr sitecol \<Rightarrow>
                        (case int_float sitecol of
                           Inl e \<Rightarrow> (if e = ValueError then Inr st1 else Inl e)
                         | Inr site \<Rightarrow>
                             store_row scorecolumn chaincolumn defaultchain st1 lsplits site)))
         else Inr st)"

fun read_lines ::
  "string \<Rightarrow> int \<Rightarrow> int \<Rightarrow> int option \<Rightarrow> string \<Rightarrow> reader_state \<Rightarrow> string list
     \<Rightarrow> error + reader_state" where
  "read_lines delimiter scorecolumn sitecolumn chaincolumn defaultchain st [] = Inr st"
| "read_lines delimiter scorecolumn sitecolumn chaincolumn defaultchain st (l # ls) =
     (case read_line delimiter scorecolumn sitecolumn chaincolumn defaultchain st l of
        Inl e \<Rightarrow> Inl e
      | Inr st' \<Rightarrow> read_lines delimiter scorecolumn sitecolumn chaincolumn defaultchain st' ls)"

text \<open>What the reader writes to \<^verbatim>\<open>stderr\<close> (lines 63, 83 and 86).\<close>

datatype message =
    Reading int string \<comment> \<open>\<^verbatim>\<open># Reading scores from column ..\<close>\<close>
  | Counted nat nat \<comment> \<open>\<^verbatim>\<open># Counted .. lines with .. scores\<close>\<close>
  | WarningNoScores \<comment> \<open>\<^verbatim>\<open># WARNING: No scores found, ..\<close>\<close>

definition is_warning :: "message \<Rightarrow> bool" where
  "is_warning m \<longleftrightarrow> m = WarningNoScores"

text \<open>
  \<^verbatim>\<open>read_generic_data\<close> on the lines of the data file: the messages written, and the table
  returned or the exception that ended the run.
\<close>

definition read_generic_data ::
  "string list \<Rightarrow> string \<Rightarrow> int \<Rightarrow> int \<Rightarrow> int option \<Rightarrow> string
     \<Rightarrow> message list \<times> (error + raw_table)" where
  "read_generic_data datafile delimiter scorecolumn sitecolumn chaincolumn defaultchain =
     (case read_lines delimiter scorecolumn sitecolumn chaincolumn defaultchain
             \<lparr> rawscore_dict = [], linecounter = 0, foundscores = 0, columnmax = 0 \<rparr>
             datafile of
        Inl e \<Rightarrow> ([Reading scorecolumn delimiter], Inl e)
      | Inr st \<Rightarrow>
          ([Reading scorecolumn delimiter, Counted (linecounter st) (foundscores st)]
           @ (if foundscores st = 0 \<and> columnmax st < 2 then [WarningNoScores] else []),
           Inr (rawscore_dict st)))"

section \<open>Facts about the primitives\<close>

subsection \<open>\<open>floor_log10\<close> is the floor of the decimal logarithm\<close>

lemma floor_log10_ge1:
  assumes "1 \<le> x"
  shows "10 powi (floor_log10 x) \<le> x \<and> x < 10 powi (floor_log10 x + 1)"
proof -
  define n where "n = nat \<lfloor>x\<rfloor>"
  define k where "k = floorlog 10 n"
  have n1: "0 < n" using assms by (simp add: n_def)
  have b: "10 ^ (k - 1) \<le> n \<and> n < 10 ^ k"
    unfolding k_def using floorlog_bounds[OF n1, of 10] by simp
  have k1: "1 \<le> k" using b n1 by (cases k) auto
  have fl: "floor_log10 x = int k - 1"
    using assms by (simp add: floor_log10_def k_def n_def)
  have nx: "real n \<le> x" using assms by (simp add: n_def)
  have xn: "x < real n + 1" using assms by (simp add: n_def)
  have p1: "(10::real) powi (int k - 1) = 10 ^ (k - 1)"
    using k1 by (simp add: power_int_def nat_diff_distrib')
  have p2: "(10::real) powi (int k - 1 + 1) = 10 ^ k"
    by (simp add: power_int_def)
  have "(10::real) ^ (k - 1) \<le> real n"
    using b by (metis of_nat_le_iff of_nat_numeral of_nat_power)
  moreover have "real n + 1 \<le> 10 ^ k"
  proof -
    have "n + 1 \<le> 10 ^ k" using b by simp
    then have "real (n + 1) \<le> real (10 ^ k)" by (rule iffD2[OF of_nat_le_iff])
    then show ?thesis by simp
  qed
  ultimately show ?thesis using nx xn unfolding fl p1 p2 by linarith
qed

lemma floor_log10_lt1:
  assumes "0 < x" "x < 1"
  shows "10 powi (floor_log10 x) \<le> x \<and> x < 10 powi (floor_log10 x + 1)"
proof -
  define c where "c = \<lceil>1 / x\<rceil>"
  define n where "n = nat (c - 1)"
  define k where "k = floorlog 10 n"
  have ix: "1 < 1 / x" using assms by simp
  have c2: "2 \<le> c" unfolding c_def using ix by linarith
  have n1: "0 < n" using c2 by (simp add: n_def)
  have b: "10 ^ (k - 1) \<le> n \<and> n < 10 ^ k"
    unfolding k_def using floorlog_bounds[OF n1, of 10] by simp
  have k1: "1 \<le> k" using b n1 by (cases k) auto
  have fl: "floor_log10 x = - int k"
    using assms by (simp add: floor_log10_def k_def n_def c_def)
  have cx: "1 / x \<le> real_of_int c" unfolding c_def by linarith
  have xc: "real_of_int c - 1 < 1 / x" unfolding c_def by linarith
  have rn: "real n = real_of_int c - 1" using c2 by (simp add: n_def)
  have lo: "(10::real) ^ (k - 1) \<le> real n"
    using b by (metis of_nat_le_iff of_nat_numeral of_nat_power)
  have hi: "real n + 1 \<le> 10 ^ k"
  proof -
    have "n + 1 \<le> 10 ^ k" using b by simp
    then have "real (n + 1) \<le> real (10 ^ k)" by (rule iffD2[OF of_nat_le_iff])
    then show ?thesis by simp
  qed
  have A: "1 / x \<le> 10 ^ k" using cx rn hi by linarith
  have B: "(10::real) ^ (k - 1) < 1 / x" using lo rn xc by linarith
  have p1: "(10::real) powi (- int k) = 1 / 10 ^ k"
    by (simp add: power_int_def field_simps)
  have p2: "(10::real) powi (- int k + 1) = 1 / 10 ^ (k - 1)"
    using k1 by (simp add: power_int_def field_simps nat_diff_distrib')
  have "1 / 10 ^ k \<le> x"
    using A assms(1) by (simp add: field_simps)
  moreover have "x < 1 / 10 ^ (k - 1)"
    using B assms(1) by (simp add: field_simps)
  ultimately show ?thesis unfolding fl p1 p2 by simp
qed

lemma floor_log10_bounds:
  "0 < x \<Longrightarrow> 10 powi (floor_log10 x) \<le> x \<and> x < 10 powi (floor_log10 x + 1)"
  using floor_log10_ge1[of x] floor_log10_lt1[of x] by (cases "1 \<le> x") auto

lemma floor_log10_is_floor_log:
  assumes "0 < x"
  shows "floor_log10 x = \<lfloor>log 10 x\<rfloor>"
proof -
  define k where "k = floor_log10 x"
  have b: "10 powi k \<le> x \<and> x < 10 powi (k + 1)"
    unfolding k_def by (rule floor_log10_bounds[OF assms])
  have p1: "(10::real) powr real_of_int k = 10 powi k"
    by (rule powr_real_of_int') simp_all
  have p2: "(10::real) powr real_of_int (k + 1) = 10 powi (k + 1)"
    by (rule powr_real_of_int') simp_all
  have p3: "(10::real) powr (real_of_int k + 1) = 10 powi (k + 1)"
    using p2 by simp
  have "\<lfloor>log 10 x\<rfloor> = k \<longleftrightarrow> 10 powr k \<le> x \<and> x < 10 powr (k + 1)"
    by (rule floor_log_eq_powr_iff) (use assms in simp_all)
  then have "\<lfloor>log 10 x\<rfloor> = k"
    using b by (simp only: p1 p2 p3)
  then show ?thesis by (simp add: k_def)
qed

subsection \<open>Rounding\<close>

lemma rint_bounds: "real_of_int (rint x) \<le> x + 1 / 2 \<and> x - 1 / 2 \<le> real_of_int (rint x)"
  unfolding rint_def Let_def by (auto split: if_splits) linarith+

lemma rint_mono: "x \<le> y \<Longrightarrow> rint x \<le> rint y"
proof -
  assume xy: "x \<le> y"
  have fl: "\<lfloor>x\<rfloor> \<le> \<lfloor>y\<rfloor>" using xy by (rule floor_mono)
  have a: "rint x \<le> \<lfloor>x\<rfloor> + 1" unfolding rint_def Let_def by auto
  have b: "\<lfloor>y\<rfloor> \<le> rint y" unfolding rint_def Let_def by auto
  show ?thesis
  proof (cases "\<lfloor>x\<rfloor> < \<lfloor>y\<rfloor>")
    case True
    then show ?thesis using a b by linarith
  next
    case False
    then have eq: "\<lfloor>x\<rfloor> = \<lfloor>y\<rfloor>" using fl by simp
    show ?thesis unfolding rint_def Let_def eq using xy by (auto split: if_splits)
  qed
qed

lemma around_error: "\<bar>around x d - x\<bar> \<le> 1 / (2 * 10 ^ d)"
proof -
  define e where "e = real_of_int (rint (x * 10 ^ d)) - x * 10 ^ d"
  have p: "(0::real) < 10 ^ d" by simp
  have e: "\<bar>e\<bar> \<le> 1 / 2"
    unfolding e_def using rint_bounds[of "x * 10 ^ d"] by linarith
  have eq: "around x d - x = e / 10 ^ d"
    unfolding around_def e_def by (simp add: diff_divide_distrib)
  have "\<bar>e\<bar> / 10 ^ d \<le> (1 / 2) / 10 ^ d"
    using e p by (intro divide_right_mono) simp_all
  then show ?thesis unfolding eq by simp
qed

lemma around_mono: "x \<le> y \<Longrightarrow> around x d \<le> around y d"
  unfolding around_def
  by (intro divide_right_mono) (simp_all add: rint_mono)

lemma decimals_unit_le:
  "1 / 10 ^ nat \<bar>min mag 0\<bar> \<le> (10::real) powi mag"
proof (cases "0 \<le> mag")
  case True
  then show ?thesis by (simp add: power_int_def)
next
  case False
  then have "nat \<bar>min mag 0\<bar> = nat (- mag)" by simp
  then show ?thesis using False by (simp add: power_int_def field_simps)
qed

lemma powi_pos: "(0::real) < 10 powi m"
  by (simp add: power_int_def)

section \<open>The bin boundaries\<close>

subsection \<open>What a successful derivation has computed\<close>

lemma make_bins_Inr:
  assumes "make_bins scores dcg z = Inr b"
  defines "lo \<equiv> Min (set scores)" and "hi \<equiv> Max (set scores)"
  defines "mag \<equiv> floor_log10 (hi - lo)"
  defines "d \<equiv> nat \<bar>min mag 0\<bar>"
  shows "scores \<noteq> []" and "lo < hi"
    and "lowest_val b = lo" and "highest_val b = hi" and "val_range b = hi - lo"
    and "round_high b = around hi d" and "rounded_diff b = around hi d - around lo d"
    and "round_correction b = 10 powi mag"
    and "round_low b = (if lo < around lo d then around lo d - 10 powi mag else around lo d)"
    and "magnitude b = (if 1 < hi - lo \<and> hi - lo < 8 then mag - 1 else mag)"
    and "branch_bins lo hi (round_low b) (round_high b) (rounded_diff b) (round_correction b)
           dcg z = Inr (binvalues b, defaultindex b)"
proof -
  show ne: "scores \<noteq> []"
    using assms(1) by (auto simp: make_bins_def split: if_splits)
  have "lo \<le> hd scores" "hd scores \<le> hi"
    using ne by (simp_all add: lo_def hi_def)
  then have le: "lo \<le> hi" by linarith
  have nz: "hi - lo \<noteq> 0"
    using assms(1) ne by (auto simp: make_bins_def Let_def lo_def hi_def split: if_splits)
  show lt: "lo < hi" using le nz by linarith
  define d0 where "d0 = nat \<bar>min (floor_log10 (hi - lo)) 0\<bar>"
  define r0c where
    "r0c = (if lo < around lo d0 then around lo d0 - 10 powi floor_log10 (hi - lo)
            else around lo d0)"
  define mag2 where
    "mag2 = (if 1 < hi - lo \<and> hi - lo < 8 then floor_log10 (hi - lo) - 1
             else floor_log10 (hi - lo))"
  define br where
    "br = branch_bins lo hi r0c (around hi d0) (around hi d0 - around lo d0)
            (10 powi floor_log10 (hi - lo)) dcg z"
  have unf: "make_bins scores dcg z =
      (case br of
         Inl e \<Rightarrow> Inl e
       | Inr (bv, di) \<Rightarrow>
           Inr \<lparr> lowest_val = lo, highest_val = hi, val_range = hi - lo,
                 median_val = median scores, round_low = r0c, round_high = around hi d0,
                 rounded_diff = around hi d0 - around lo d0,
                 round_correction = 10 powi floor_log10 (hi - lo), magnitude = mag2,
                 binvalues = bv, defaultindex = di,
                 binname_correction = 10 / 10 powi mag2 \<rparr>)"
    unfolding make_bins_def Let_def br_def r0c_def mag2_def d0_def
    by (fold lo_def hi_def) (use ne lt in simp)
  obtain bv di where br: "br = Inr (bv, di)"
    using assms(1) unfolding unf by (cases br) auto
  have bdef: "b = \<lparr> lowest_val = lo, highest_val = hi, val_range = hi - lo,
                 median_val = median scores, round_low = r0c, round_high = around hi d0,
                 rounded_diff = around hi d0 - around lo d0,
                 round_correction = 10 powi floor_log10 (hi - lo), magnitude = mag2,
                 binvalues = bv, defaultindex = di,
                 binname_correction = 10 / 10 powi mag2 \<rparr>"
    using assms(1) unfolding unf br by simp
  have rest: "lowest_val b = lo \<and> highest_val b = hi \<and> val_range b = hi - lo
      \<and> round_high b = around hi d \<and> rounded_diff b = around hi d - around lo d
      \<and> round_correction b = 10 powi mag
      \<and> round_low b = (if lo < around lo d then around lo d - 10 powi mag else around lo d)
      \<and> magnitude b = (if 1 < hi - lo \<and> hi - lo < 8 then mag - 1 else mag)
      \<and> branch_bins lo hi (round_low b) (round_high b) (rounded_diff b) (round_correction b)
           dcg z = Inr (binvalues b, defaultindex b)"
    using br unfolding bdef br_def r0c_def mag2_def d0_def d_def mag_def by simp
  show "lowest_val b = lo" and "highest_val b = hi" and "val_range b = hi - lo"
    and "round_high b = around hi d" and "rounded_diff b = around hi d - around lo d"
    and "round_correction b = 10 powi mag"
    and "round_low b = (if lo < around lo d then around lo d - 10 powi mag else around lo d)"
    and "magnitude b = (if 1 < hi - lo \<and> hi - lo < 8 then mag - 1 else mag)"
    and "branch_bins lo hi (round_low b) (round_high b) (rounded_diff b) (round_correction b)
           dcg z = Inr (binvalues b, defaultindex b)"
    using rest by blast+
qed


subsection \<open>The sequential branch\<close>

lemma powi_Suc: "(10::real) powi (m + 1) = 10 * 10 powi m"
  by (simp add: power_int_add)

lemma rounding_facts:
  fixes lo hi :: real
  assumes lt: "lo < hi"
  defines "mag \<equiv> floor_log10 (hi - lo)"
  defines "d \<equiv> nat \<bar>min mag 0\<bar>"
  defines "rc \<equiv> 10 powi mag"
  defines "r0 \<equiv> around lo d" and "r1 \<equiv> around hi d"
  shows "0 < rc" and "rc \<le> hi - lo" and "hi - lo < 10 * rc"
    and "r0 \<le> r1" and "r0 \<le> lo + rc / 2" and "hi - rc / 2 \<le> r1" and "r1 - r0 < 11 * rc"
    and "lo - rc / 2 \<le> r0"
proof -
  define u :: real where "u = 1 / 10 ^ d"
  show rc: "0 < rc" by (simp add: rc_def powi_pos)
  have b: "10 powi mag \<le> hi - lo \<and> hi - lo < 10 powi (mag + 1)"
    unfolding mag_def using lt by (intro floor_log10_bounds) simp
  show "rc \<le> hi - lo" using b by (simp add: rc_def)
  show up: "hi - lo < 10 * rc" using b by (simp add: rc_def powi_Suc)
  show "r0 \<le> r1" unfolding r0_def r1_def using lt by (intro around_mono) simp
  have u: "u \<le> rc" unfolding u_def rc_def d_def by (rule decimals_unit_le)
  have e0: "\<bar>r0 - lo\<bar> \<le> u / 2" unfolding r0_def u_def using around_error[of lo d] by simp
  have e1: "\<bar>r1 - hi\<bar> \<le> u / 2" unfolding r1_def u_def using around_error[of hi d] by simp
  show "r0 \<le> lo + rc / 2" using e0 u by linarith
  show "lo - rc / 2 \<le> r0" using e0 u by linarith
  show "hi - rc / 2 \<le> r1" using e1 u by linarith
  show "r1 - r0 < 11 * rc" using e0 e1 u up by linarith
qed

lemma arange_length_bound:
  fixes step :: real
  assumes "0 < step" and "i < nat \<lceil>q / step\<rceil>"
  shows "real i * step < q"
proof -
  have "int i < \<lceil>q / step\<rceil>" using assms(2) by linarith
  then have "real i < q / step" by (simp add: less_ceiling_iff)
  then show ?thesis using assms(1) by (simp add: pos_less_divide_eq)
qed

lemma sequential_numeric:
  fixes lo hi :: real
  assumes lt: "lo < hi"
  defines "mag \<equiv> floor_log10 (hi - lo)"
  defines "d \<equiv> nat \<bar>min mag 0\<bar>"
  defines "rc \<equiv> 10 powi mag"
  defines "r0 \<equiv> around lo d" and "r1 \<equiv> around hi d"
  defines "r0c \<equiv> (if lo < r0 then r0 - rc else r0)"
  defines "step \<equiv> (r1 - r0) / 8"
  defines "n \<equiv> nat \<lceil>(r1 + step - r0c) / step\<rceil>"
  assumes nz: "r1 - r0 \<noteq> 0"
  shows "r0c \<le> lo" and "hi < r1 + rc" and "0 < step" and "9 \<le> n"
    and "\<not> lo < r0 \<Longrightarrow> n = 9"
    and "\<forall>i<n. r0c + real i * step < r1 + rc"
proof -
  note rf = rounding_facts[OF lt, folded mag_def, folded d_def, folded rc_def r0_def r1_def]
  show "r0c \<le> lo" unfolding r0c_def using rf by (auto split: if_splits)
  show "hi < r1 + rc" using rf by linarith
  show st: "0 < step" unfolding step_def using rf(4) nz by simp
  have rd: "r1 - r0 = 8 * step" by (simp add: step_def)
  have st2: "step < 2 * rc" using rf(1,7) rd by linarith
  have q_nc: "r0c = r0 \<Longrightarrow> (r1 + step - r0c) / step = 9"
    using st rd by (simp add: field_simps)
  have q_c: "r0c = r0 - rc \<Longrightarrow> (r1 + step - r0c) / step = 9 + rc / step"
    using st rd by (simp add: field_simps)
  have cases: "r0c = r0 \<or> (r0c = r0 - rc \<and> lo < r0)" by (simp add: r0c_def)
  have rcs: "0 < rc / step" using rf(1) st by simp
  show n9: "9 \<le> n"
  proof -
    have "9 \<le> (r1 + step - r0c) / step" using cases q_nc q_c rcs by auto
    then have "9 \<le> \<lceil>(r1 + step - r0c) / step\<rceil>" by linarith
    then show ?thesis unfolding n_def by linarith
  qed
  show "\<not> lo < r0 \<Longrightarrow> n = 9"
  proof -
    assume "\<not> lo < r0"
    then have "r0c = r0" by (simp add: r0c_def)
    then show "n = 9" using q_nc by (simp add: n_def)
  qed
  show "\<forall>i<n. r0c + real i * step < r1 + rc"
  proof (intro allI impI)
    fix i assume i: "i < n"
    have lt1: "real i * step < r1 + step - r0c"
      using arange_length_bound[OF st, of i "r1 + step - r0c"] i by (simp add: n_def)
    show "r0c + real i * step < r1 + rc"
    proof (cases "step \<le> rc")
      case True
      then show ?thesis using lt1 by linarith
    next
      case False
      then have big: "rc < step" by simp
      show ?thesis
      proof (cases "r0c = r0")
        case True
        have "real i * step < 9 * step" using lt1 rd True by linarith
        then have "real i < 9" using st by simp
        then have "i \<le> 8" by linarith
        then have "real i \<le> 8" by simp
        then have "real i * step \<le> 8 * step" using st by (intro mult_right_mono) simp_all
        then show ?thesis using True rd rf(1) by linarith
      next
        case False
        then have c: "r0c = r0 - rc" using cases by blast
        have "real i * step < 9 * step + rc" using lt1 rd c by linarith
        then have "real i * step < 10 * step" using big by linarith
        then have "real i < 10" using st by simp
        then have "i \<le> 9" by linarith
        then have "real i \<le> 9" by simp
        then have "real i * step \<le> 9 * step" using st by (intro mult_right_mono) simp_all
        then show ?thesis using c rd st2 by linarith
      qed
    qed
  qed
qed




text \<open>
  The derivation succeeds on non-negative scores as soon as the maximum exceeds the
  minimum and the two round to different values.
\<close>

lemma make_bins_sequential_succeeds:
  fixes scores :: "real list"
  defines "lo \<equiv> Min (set scores)" and "hi \<equiv> Max (set scores)"
  defines "d \<equiv> nat \<bar>min (floor_log10 (hi - lo)) 0\<bar>"
  assumes ne: "scores \<noteq> []" and nonneg: "0 \<le> lo" and lt: "lo < hi"
    and nz: "around hi d \<noteq> around lo d"
  shows "\<exists>b. make_bins scores dcg z = Inr b"
proof -
  define rc :: real where "rc = 10 powi floor_log10 (hi - lo)"
  define r0c where "r0c = (if lo < around lo d then around lo d - rc else around lo d)"
  define step where "step = (around hi d - around lo d) / 8"
  define n where "n = nat \<lceil>(around hi d + step - r0c) / step\<rceil>"
  have nz': "around hi d - around lo d \<noteq> 0" using nz by simp
  have n9: "9 \<le> n"
    unfolding n_def step_def r0c_def rc_def d_def
    by (rule sequential_numeric(4)[OF lt nz'[unfolded d_def]])
  have st: "step \<noteq> 0" using nz by (simp add: step_def)
  have sq: "\<exists>bv. sequential_bins r0c (around hi d) (around hi d - around lo d) rc = Inr bv"
    unfolding sequential_bins_def arange_def Let_def step_def[symmetric] n_def[symmetric]
    using st n9 by (simp add: py_index_def)
  then obtain bv where bv: "sequential_bins r0c (around hi d) (around hi d - around lo d) rc = Inr bv"
    by blast
  have br: "\<exists>r. branch_bins lo hi r0c (around hi d) (around hi d - around lo d) rc dcg z = Inr r"
    unfolding branch_bins_def using nonneg bv by simp
  show ?thesis
    unfolding make_bins_def Let_def
    apply (fold lo_def hi_def)
    apply (fold d_def rc_def)
    apply (fold r0c_def)
    using ne lt br by (auto split: sum.splits)
qed


subsection \<open>Evaluated runs\<close>

lemma make_bins_sequential_example:
  "make_bins [1 / 4, 4, 39 / 4] None 0 =
     Inr \<lparr>lowest_val = 1 / 4, highest_val = 39 / 4, val_range = 19 / 2, median_val = 4,
       round_low = 0, round_high = 10, rounded_diff = 10, round_correction = 1,
       magnitude = 0,
       binvalues = Some [0, 5 / 4, 5 / 2, 15 / 4, 5, 25 / 4, 15 / 2, 35 / 4, 10, 11],
       defaultindex = Some 0, binname_correction = 10\<rparr>"
  by code_simp

lemma make_bins_narrow_example:
  "make_bins [1 / 4, 8] None 0 =
     Inr \<lparr>lowest_val = 1 / 4, highest_val = 8, val_range = 31 / 4, median_val = 33 / 8,
       round_low = 0, round_high = 8, rounded_diff = 8, round_correction = 1,
       magnitude = - 1,
       binvalues = Some [0, 1, 2, 3, 4, 5, 6, 7, 8, 9],
       defaultindex = Some 0, binname_correction = 100\<rparr>"
  by code_simp

lemma make_bins_diverging_example:
  "make_bins [- 2, 43 / 8] None 0 =
     Inr \<lparr>lowest_val = - 2, highest_val = 43 / 8, val_range = 59 / 8, median_val = 27 / 16,
       round_low = - 2, round_high = 5, rounded_diff = 7, round_correction = 1,
       magnitude = - 1,
       binvalues = Some [- 2, - (3 / 2), - 1, - (1 / 2), 0, 1 / 10, 27 / 20, 13 / 5, 77 / 20, 51 / 10],
       defaultindex = Some 4, binname_correction = 100\<rparr>"
  by code_simp



section \<open>The claims about the bin boundaries\<close>

text \<open>
  In this section the score collection is the list that line 172 hands to the derivation
  (\<open>all_scores\<close>); for a table with several chains that is the first chain only, see C1.
\<close>








text \<open>
  C9, as amended. The magnitude is decremented by 1 exactly when the raw range, maximum
  minus minimum, lies strictly between 1 and 8; the rounded range plays no part.
\<close>

theorem magnitude_decrement:
  assumes "make_bins scores dcg z = Inr b"
  shows "val_range b = Max (set scores) - Min (set scores)
         \<and> magnitude b = floor_log10 (val_range b)
                          - (if 1 < val_range b \<and> val_range b < 8 then 1 else 0)"
  using make_bins_Inr(5,10)[OF assms] by simp

theorem magnitude_decrement_witness:
  "make_bins [1 / 4, 8] None 0 =
     Inr \<lparr>lowest_val = 1 / 4, highest_val = 8, val_range = 31 / 4, median_val = 33 / 8,
       round_low = 0, round_high = 8, rounded_diff = 8, round_correction = 1,
       magnitude = - 1,
       binvalues = Some [0, 1, 2, 3, 4, 5, 6, 7, 8, 9],
       defaultindex = Some 0, binname_correction = 100\<rparr>
   \<and> (31 / 4 :: real) = Max (set [1 / 4, 8]) - Min (set [1 / 4, 8])
   \<and> (- 1 :: int) = floor_log10 (31 / 4)
                     - (if 1 < (31 / 4 :: real) \<and> (31 / 4 :: real) < 8 then 1 else 0)"
  using magnitude_decrement[OF make_bins_narrow_example] make_bins_narrow_example
  by simp

text \<open>
  C9 as stated fails: for the scores 0.25 and 8 the rounded range is 8, not strictly below
  8, and yet the magnitude 0 is decremented to -1, the raw range being 7.75.
\<close>

theorem magnitude_decrement_counterexample:
  "make_bins [1 / 4, 8] None 0 =
     Inr \<lparr>lowest_val = 1 / 4, highest_val = 8, val_range = 31 / 4, median_val = 33 / 8,
       round_low = 0, round_high = 8, rounded_diff = 8, round_correction = 1,
       magnitude = - 1,
       binvalues = Some [0, 1, 2, 3, 4, 5, 6, 7, 8, 9],
       defaultindex = Some 0, binname_correction = 100\<rparr>
   \<and> (- 1 :: int) = floor_log10 (31 / 4) - 1
   \<and> \<not> (1 < (8 :: real) \<and> (8 :: real) < 8)"
  using make_bins_narrow_example by (simp add: floor_log10_def compute_floorlog)

section \<open>The claims about the script\<close>

lemma all_scores_Cons: "all_scores ((chain, rd) # others) = Inr (map snd rd)"
  by (simp add: all_scores_def chain_values_def)

lemma colors_None_iff:
  "colors basecolor = None \<longleftrightarrow>
     basecolor \<notin> set [''red'', ''yellow'', ''blue'', ''green'', ''div1w'', ''div1b'', ''div2w'', ''div2b'']"
  unfolding colors_def by (simp add: map_of_eq_None_iff)

lemma flattened_empty_all_scores:
  assumes "flattened_scores scoredict = []"
  shows "all_scores scoredict = Inl IndexError \<or> all_scores scoredict = Inr []"
  using assms unfolding flattened_scores_def all_scores_def
  by (cases "chain_values scoredict") auto

lemma make_bins_Nil: "make_bins [] dcg z = Inl ValueError"
  by (simp add: make_bins_def)

text \<open>
  The scan of lines 262 to 266: a residue goes to the first bin whose upper boundary
  exceeds its score, and to no bin exactly when no upper boundary does.
\<close>

lemma scan_bins_Some:
  assumes "scan_bins bv (enumerate k xs) s = Some (i, v)"
  shows "k \<le> i \<and> i < k + length xs \<and> v = xs ! (i - k) \<and> s < bv ! (i + 1)
         \<and> (\<forall>j. k \<le> j \<and> j < i \<longrightarrow> \<not> s < bv ! (j + 1))"
  using assms
proof (induction xs arbitrary: k)
  case Nil
  then show ?case by simp
next
  case (Cons x xs)
  show ?case
  proof (cases "s < bv ! (k + 1)")
    case True
    then show ?thesis using Cons.prems by auto
  next
    case False
    then have "scan_bins bv (enumerate (Suc k) xs) s = Some (i, v)"
      using Cons.prems by simp
    from Cons.IH[OF this] have ih: "Suc k \<le> i" "i < Suc k + length xs"
        "v = xs ! (i - Suc k)" "s < bv ! (i + 1)"
        "\<forall>j. Suc k \<le> j \<and> j < i \<longrightarrow> \<not> s < bv ! (j + 1)"
      by blast+
    have "\<forall>j. k \<le> j \<and> j < i \<longrightarrow> \<not> s < bv ! (j + 1)"
    proof (intro allI impI)
      fix j assume j: "k \<le> j \<and> j < i"
      show "\<not> s < bv ! (j + 1)"
      proof (cases "j = k")
        case True
        then show ?thesis using False by simp
      next
        case False
        then have "Suc k \<le> j \<and> j < i" using j by simp
        then show ?thesis using ih(5) by blast
      qed
    qed
    moreover have "(x # xs) ! (i - k) = xs ! (i - Suc k)"
    proof -
      have "i - k = Suc (i - Suc k)" using ih(1) by linarith
      then show ?thesis by simp
    qed
    ultimately show ?thesis using ih by auto
  qed
qed

lemma scan_bins_None:
  "scan_bins bv (enumerate k xs) s = None
     \<longleftrightarrow> (\<forall>j. k \<le> j \<and> j < k + length xs \<longrightarrow> \<not> s < bv ! (j + 1))"
proof (induction xs arbitrary: k)
  case Nil
  then show ?case by simp
next
  case (Cons x xs)
  show ?case
  proof (cases "s < bv ! (k + 1)")
    case True
    then show ?thesis by auto
  next
    case False
    have "(\<forall>j. k \<le> j \<and> j < k + length (x # xs) \<longrightarrow> \<not> s < bv ! (j + 1))
          \<longleftrightarrow> (\<forall>j. Suc k \<le> j \<and> j < Suc k + length xs \<longrightarrow> \<not> s < bv ! (j + 1))"
      (is "?L \<longleftrightarrow> ?R")
    proof
      assume ?L then show ?R by auto
    next
      assume r: ?R
      show ?L
      proof (intro allI impI)
        fix j assume j: "k \<le> j \<and> j < k + length (x # xs)"
        show "\<not> s < bv ! (j + 1)"
        proof (cases "j = k")
          case True
          then show ?thesis using False by simp
        next
          case False
          then have "Suc k \<le> j \<and> j < Suc k + length xs" using j by auto
          then show ?thesis using r by blast
        qed
      qed
    qed
    then show ?thesis using False Cons.IH[of "Suc k"] by simp
  qed
qed

lemma find_bin_first:
  assumes "find_bin bv s = Some (i, v)"
  shows "i + 1 < length bv \<and> v = bv ! i \<and> s < bv ! (i + 1)
         \<and> (\<forall>j<i. bv ! (j + 1) \<le> s)"
proof -
  have sb: "0 \<le> i \<and> i < 0 + length (butlast bv) \<and> v = butlast bv ! (i - 0)
          \<and> s < bv ! (i + 1) \<and> (\<forall>j. 0 \<le> j \<and> j < i \<longrightarrow> \<not> s < bv ! (j + 1))"
    using assms unfolding find_bin_def by (rule scan_bins_Some)
  then have i: "i < length bv - 1" by simp
  then have "butlast bv ! i = bv ! i" by (simp add: nth_butlast)
  then show ?thesis using sb i by (auto simp: not_less)
qed

lemma find_bin_none:
  "find_bin bv s = None \<longleftrightarrow> (\<forall>j. j + 1 < length bv \<longrightarrow> bv ! (j + 1) \<le> s)"
  unfolding find_bin_def scan_bins_None by (auto simp: not_less)

lemma make_bins_first_chain_example:
  "make_bins [1 / 4, 39 / 4] None 0 =
     Inr \<lparr>lowest_val = 1 / 4, highest_val = 39 / 4, val_range = 19 / 2, median_val = 5,
       round_low = 0, round_high = 10, rounded_diff = 10, round_correction = 1,
       magnitude = 0,
       binvalues = Some [0, 5 / 4, 5 / 2, 15 / 4, 5, 25 / 4, 15 / 2, 35 / 4, 10, 11],
       defaultindex = Some 0, binname_correction = 10\<rparr>"
  by code_simp

text \<open>
  C1 asks that minimum, maximum, range and median be taken over the scores of all chains.
  Line 172 keeps the first chain's list only. For chain A with 0.25 and 9.75 and chain B
  with 100, the collection is 0.25, 9.75; the boundaries end at 11, the score 100 of chain
  B finds no bin, and the script selects the two residues of chain A only.
\<close>

theorem first_chain_only:
  "all_scores [(''A'', [(1, 1 / 4), (2, 39 / 4)]), (''B'', [(1, 100)])] = Inr [1 / 4, 39 / 4]
   \<and> flattened_scores [(''A'', [(1, 1 / 4), (2, 39 / 4)]), (''B'', [(1, 100)])]
       = [1 / 4, 39 / 4, 100]
   \<and> make_bins [1 / 4, 39 / 4] None 0 =
     Inr \<lparr>lowest_val = 1 / 4, highest_val = 39 / 4, val_range = 19 / 2, median_val = 5,
       round_low = 0, round_high = 10, rounded_diff = 10, round_correction = 1,
       magnitude = 0,
       binvalues = Some [0, 5 / 4, 5 / 2, 15 / 4, 5, 25 / 4, 15 / 2, 35 / 4, 10, 11],
       defaultindex = Some 0, binname_correction = 10\<rparr>
   \<and> find_bin [0, 5 / 4, 5 / 2, 15 / 4, 5, 25 / 4, 15 / 2, 35 / 4, 10, 11] 100 = None
   \<and> selected (fst (make_output_script
          [(''A'', [(1, 1 / 4), (2, 39 / 4)]), (''B'', [(1, 100)])]
          [(''A'', ''UNKNOWN''), (''B'', ''UNKNOWN'')] [(''A'', 0), (''B'', 0)]
          ''grp'' False None ''red'' False 0))
       = [(''A'', 1), (''A'', 2)]"
proof -
  have s: "selected (fst (make_output_script
          [(''A'', [(1, 1 / 4), (2, 39 / 4)]), (''B'', [(1, 100)])]
          [(''A'', ''UNKNOWN''), (''B'', ''UNKNOWN'')] [(''A'', 0), (''B'', 0)]
          ''grp'' False None ''red'' False 0))
       = [(''A'', 1), (''A'', 2)]"
    by code_simp
  have f: "find_bin [0, 5 / 4, 5 / 2, 15 / 4, 5, 25 / 4, 15 / 2, 35 / 4, 10, 11] 100 = None"
    by code_simp
  show ?thesis
    using s f make_bins_first_chain_example
    by (simp add: all_scores_Cons flattened_scores_def chain_values_def)
qed

text \<open>
  C3 asks that no residue be left without a bin. The scan assigns a residue to the first
  bin whose upper boundary exceeds its score and to no bin when no boundary does. For the
  scores -2 and 5.375 of one chain the sign-spanning branch ends its boundaries at 5.1, so
  the residue with 5.375 is in no selection although the run succeeds.
\<close>

theorem residue_beyond_last_boundary_dropped:
  "make_bins [- 2, 43 / 8] None 0 =
     Inr \<lparr>lowest_val = - 2, highest_val = 43 / 8, val_range = 59 / 8, median_val = 27 / 16,
       round_low = - 2, round_high = 5, rounded_diff = 7, round_correction = 1,
       magnitude = - 1,
       binvalues = Some [- 2, - (3 / 2), - 1, - (1 / 2), 0, 1 / 10, 27 / 20, 13 / 5, 77 / 20, 51 / 10],
       defaultindex = Some 4, binname_correction = 100\<rparr>
   \<and> find_bin [- 2, - (3 / 2), - 1, - (1 / 2), 0, 1 / 10, 27 / 20, 13 / 5, 77 / 20, 51 / 10]
         (43 / 8) = None
   \<and> snd (make_output_script [(''A'', [(1, - 2), (2, 43 / 8)])] [(''A'', ''UNKNOWN'')]
            [(''A'', 0)] ''grp'' False None ''red'' False 0) = None
   \<and> selected (fst (make_output_script [(''A'', [(1, - 2), (2, 43 / 8)])] [(''A'', ''UNKNOWN'')]
            [(''A'', 0)] ''grp'' False None ''red'' False 0))
       = [(''A'', 1)]"
proof -
  have f: "find_bin [- 2, - (3 / 2), - 1, - (1 / 2), 0, 1 / 10, 27 / 20, 13 / 5, 77 / 20, 51 / 10]
         (43 / 8) = None"
    by code_simp
  have e: "snd (make_output_script [(''A'', [(1, - 2), (2, 43 / 8)])] [(''A'', ''UNKNOWN'')]
            [(''A'', 0)] ''grp'' False None ''red'' False 0) = None"
    by code_simp
  have s: "selected (fst (make_output_script [(''A'', [(1, - 2), (2, 43 / 8)])]
            [(''A'', ''UNKNOWN'')] [(''A'', 0)] ''grp'' False None ''red'' False 0))
       = [(''A'', 1)]"
    by code_simp
  show ?thesis using f e s make_bins_diverging_example by simp
qed

text \<open>
  C5, as amended. For a palette name outside the eight names the run always fails and
  never writes a palette or chain directive; when the boundaries were derived, the failure
  is the \<^verbatim>\<open>KeyError\<close> of line 248, raised after the four opening directives of lines 241
  to 246 have been written.
\<close>

theorem unknown_palette_fails:
  assumes "basecolor \<notin> set [''red'', ''yellow'', ''blue'', ''green'',
                               ''div1w'', ''div1b'', ''div2w'', ''div2b'']"
  shows "(\<exists>out e. make_output_script scoredict keepchains refoffsets groupname exclude_common
               default_chain_grp basecolor reverse_colors ZEROOVERRIDE = (out, Some e)
            \<and> (out = [] \<or>
                 out = [HideEverything, ShowCartoon, SetColorDefault insuf_color, ColorDefaultAll]
                 \<and> e = KeyError))
       \<and> (\<forall>scores b bv. all_scores scoredict = Inr scores
             \<longrightarrow> make_bins scores default_chain_grp ZEROOVERRIDE = Inr b
             \<longrightarrow> binvalues b = Some bv
             \<longrightarrow> make_output_script scoredict keepchains refoffsets groupname exclude_common
                   default_chain_grp basecolor reverse_colors ZEROOVERRIDE
                 = ([HideEverything, ShowCartoon, SetColorDefault insuf_color, ColorDefaultAll],
                    Some KeyError))"
proof -
  have none: "colors basecolor = None" using assms colors_None_iff[of basecolor] by blast
  show ?thesis
    unfolding make_output_script_def Let_def none
    by (auto split: sum.splits option.splits)
qed


theorem unknown_palette_fails_witness:
  "''purple'' \<notin> set [''red'', ''yellow'', ''blue'', ''green'',
                        ''div1w'', ''div1b'', ''div2w'', ''div2b'']
   \<and> all_scores [(''A'', [(1, 1 / 4), (2, 4), (3, 39 / 4)])] = Inr [1 / 4, 4, 39 / 4]
   \<and> make_output_script [(''A'', [(1, 1 / 4), (2, 4), (3, 39 / 4)])] [(''A'', ''UNKNOWN'')]
         [(''A'', 0)] ''grp'' False None ''purple'' False 0
       = ([HideEverything, ShowCartoon, SetColorDefault insuf_color, ColorDefaultAll],
          Some KeyError)"
proof -
  have p: "''purple'' \<notin> set [''red'', ''yellow'', ''blue'', ''green'',
                        ''div1w'', ''div1b'', ''div2w'', ''div2b'']"
    by simp
  have a: "all_scores [(''A'', [(1, 1 / 4), (2, 4), (3, 39 / 4)])] = Inr [1 / 4, 4, 39 / 4]"
    by (simp add: all_scores_Cons)
  show ?thesis
    using unknown_palette_fails[OF p, of "[(''A'', [(1, 1 / 4), (2, 4), (3, 39 / 4)])]"
        "[(''A'', ''UNKNOWN'')]" "[(''A'', 0)]" "''grp''" False None False 0]
      a make_bins_sequential_example p
    by simp
qed

text \<open>
  C5 as stated fails: with the palette name \<^verbatim>\<open>purple\<close> four directives are written before
  the \<^verbatim>\<open>KeyError\<close>.
\<close>

theorem unknown_palette_counterexample:
  "''purple'' \<notin> set [''red'', ''yellow'', ''blue'', ''green'',
                        ''div1w'', ''div1b'', ''div2w'', ''div2b'']
   \<and> make_output_script [(''A'', [(1, 1 / 4), (2, 4), (3, 39 / 4)])] [(''A'', ''UNKNOWN'')]
         [(''A'', 0)] ''grp'' False None ''purple'' False 0
       = ([HideEverything, ShowCartoon, SetColorDefault insuf_color, ColorDefaultAll],
          Some KeyError)
   \<and> [HideEverything, ShowCartoon, SetColorDefault insuf_color, ColorDefaultAll] \<noteq> []"
  by (simp add: make_output_script_def all_scores_Cons make_bins_sequential_example
        colors_def)

text \<open>
  C6. When the table holds no score at all, the run fails with an exception and nothing
  has been written to the script.
\<close>

theorem empty_scores_abort:
  assumes "flattened_scores scoredict = []"
  shows "\<exists>e. make_output_script scoredict keepchains refoffsets groupname exclude_common
               default_chain_grp basecolor reverse_colors ZEROOVERRIDE = ([], Some e)"
  using flattened_empty_all_scores[OF assms]
  by (auto simp: make_output_script_def make_bins_Nil)

theorem empty_scores_abort_witness:
  "flattened_scores [] = []
   \<and> make_output_script [] [(''A'', ''UNKNOWN'')] [(''A'', 0)] ''grp'' False None ''red'' False 0
       = ([], Some IndexError)
   \<and> flattened_scores [(''A'', [])] = []
   \<and> make_output_script [(''A'', [])] [(''A'', ''UNKNOWN'')] [(''A'', 0)] ''grp'' False None
         ''red'' False 0
       = ([], Some ValueError)"
proof -
  have f1: "flattened_scores [] = []" by (simp add: flattened_scores_def chain_values_def)
  have f2: "flattened_scores [(''A'', [])] = []"
    by (simp add: flattened_scores_def chain_values_def)
  show ?thesis
    using empty_scores_abort[OF f1, of "[(''A'', ''UNKNOWN'')]" "[(''A'', 0)]" "''grp''" False None
        "''red''" False 0]
      empty_scores_abort[OF f2, of "[(''A'', ''UNKNOWN'')]" "[(''A'', 0)]" "''grp''" False None
        "''red''" False 0]
      f1 f2
    by (simp add: make_output_script_def all_scores_def chain_values_def make_bins_Nil)
qed

section \<open>The claims about the score reader\<close>

lemma read_lines_append:
  "read_lines d sc si cc dc st (xs @ ys) =
     (case read_lines d sc si cc dc st xs of
        Inl e \<Rightarrow> Inl e
      | Inr st' \<Rightarrow> read_lines d sc si cc dc st' ys)"
  by (induction xs arbitrary: st) (auto split: sum.splits)

lemma read_line_skip:
  assumes "py_strip raw \<noteq> []" and "hd (py_strip raw) \<noteq> CHR ''#''"
    and "py_split (py_strip raw) d = Inr lsplits"
    and "py_index lsplits si = Inr sitecol"
    and "int_float sitecol = Inl ValueError"
  shows "read_line d sc si cc dc st raw =
           Inr (st \<lparr> linecounter := linecounter st + 1,
                      columnmax := max (columnmax st) (length lsplits) \<rparr>)"
  using assms by (simp add: read_line_def Let_def)

lemma read_line_data:
  assumes "py_strip raw \<noteq> []" and "hd (py_strip raw) \<noteq> CHR ''#''"
    and "py_split (py_strip raw) d = Inr lsplits"
    and "py_index lsplits si = Inr sitecol"
  shows "read_line d sc si cc dc st raw =
           (case int_float sitecol of
              Inl e \<Rightarrow>
                if e = ValueError
                then Inr (st \<lparr> linecounter := linecounter st + 1,
                                columnmax := max (columnmax st) (length lsplits) \<rparr>)
                else Inl e
            | Inr site \<Rightarrow>
                store_row sc cc dc
                  (st \<lparr> linecounter := linecounter st + 1,
                        columnmax := max (columnmax st) (length lsplits) \<rparr>)
                  lsplits site)"
  using assms by (simp add: read_line_def Let_def split: sum.splits)

lemma store_row_found:
  assumes "store_row sc cc dc st1 lsplits site = Inr t"
  shows "foundscores t = foundscores st1 + 1"
  using assms unfolding store_row_def by (auto split: sum.splits option.splits)

lemma store_row_related:
  assumes "rawscore_dict s = rawscore_dict s'" and "foundscores s = foundscores s'"
    and "columnmax s' \<le> columnmax s"
  shows "rel_sum (=)
           (\<lambda>t t'. rawscore_dict t = rawscore_dict t' \<and> foundscores t = foundscores t'
                     \<and> columnmax t' \<le> columnmax t)
           (store_row sc cc dc s lsplits site) (store_row sc cc dc s' lsplits site)"
  using assms unfolding store_row_def by (auto split: sum.splits option.splits)

lemma read_line_related:
  assumes "rawscore_dict s = rawscore_dict s'" and "foundscores s = foundscores s'"
    and "columnmax s' \<le> columnmax s"
  shows "rel_sum (=)
           (\<lambda>t t'. rawscore_dict t = rawscore_dict t' \<and> foundscores t = foundscores t'
                     \<and> columnmax t' \<le> columnmax t)
           (read_line d sc si cc dc s raw) (read_line d sc si cc dc s' raw)"
proof -
  have st: "rel_sum (=)
           (\<lambda>t t'. rawscore_dict t = rawscore_dict t' \<and> foundscores t = foundscores t'
                     \<and> columnmax t' \<le> columnmax t)
           (store_row sc cc dc (s \<lparr> linecounter := a, columnmax := max (columnmax s) n \<rparr>) l site)
           (store_row sc cc dc (s' \<lparr> linecounter := a', columnmax := max (columnmax s') n \<rparr>) l site)"
    for a a' n l site
    using assms by (intro store_row_related) simp_all
  show ?thesis
    unfolding read_line_def Let_def using assms st
    by (auto split: sum.splits)
qed

lemma read_lines_related:
  assumes "rawscore_dict s = rawscore_dict s'" and "foundscores s = foundscores s'"
    and "columnmax s' \<le> columnmax s"
  shows "rel_sum (=)
           (\<lambda>t t'. rawscore_dict t = rawscore_dict t' \<and> foundscores t = foundscores t'
                     \<and> columnmax t' \<le> columnmax t)
           (read_lines d sc si cc dc s rows) (read_lines d sc si cc dc s' rows)"
  using assms
proof (induction rows arbitrary: s s')
  case Nil
  then show ?case by simp
next
  case (Cons raw rows)
  have r: "rel_sum (=)
           (\<lambda>t t'. rawscore_dict t = rawscore_dict t' \<and> foundscores t = foundscores t'
                     \<and> columnmax t' \<le> columnmax t)
           (read_line d sc si cc dc s raw) (read_line d sc si cc dc s' raw)"
    using Cons.prems by (intro read_line_related)
  show ?case
  proof (cases "read_line d sc si cc dc s raw")
    case (Inl e)
    then show ?thesis using r by (cases "read_line d sc si cc dc s' raw") auto
  next
    case (Inr t)
    then obtain t' where t': "read_line d sc si cc dc s' raw = Inr t'"
      and rel: "rawscore_dict t = rawscore_dict t'" "foundscores t = foundscores t'"
        "columnmax t' \<le> columnmax t"
      using r by (cases "read_line d sc si cc dc s' raw") auto
    show ?thesis using Cons.IH[OF rel] Inr t' by simp
  qed
qed


lemma read_generic_data_unfold:
  "read_generic_data rows d sc si cc dc =
     (case read_lines d sc si cc dc
             \<lparr> rawscore_dict = [], linecounter = 0, foundscores = 0, columnmax = 0 \<rparr> rows of
        Inl e \<Rightarrow> ([Reading sc d], Inl e)
      | Inr st \<Rightarrow>
          ([Reading sc d, Counted (linecounter st) (foundscores st)]
           @ (if foundscores st = 0 \<and> columnmax st < 2 then [WarningNoScores] else []),
           Inr (rawscore_dict st)))"
  by (simp add: read_generic_data_def)

text \<open>
  C7, as amended. A data row whose site column makes \<^verbatim>\<open>int(float(..))\<close> raise
  \<^verbatim>\<open>ValueError\<close> changes the line count and the column maximum only: the table and the
  outcome of the run are those of the file without the row, and the row adds no warning to
  what is written to \<^verbatim>\<open>stderr\<close>.
\<close>

theorem bad_site_row_skipped_silently:
  assumes "py_strip raw \<noteq> []" and "hd (py_strip raw) \<noteq> CHR ''#''"
    and "py_split (py_strip raw) d = Inr lsplits"
    and "py_index lsplits si = Inr sitecol"
    and "int_float sitecol = Inl ValueError"
  shows "(\<forall>st. read_line d sc si cc dc st raw =
                 Inr (st \<lparr> linecounter := linecounter st + 1,
                            columnmax := max (columnmax st) (length lsplits) \<rparr>))
       \<and> snd (read_generic_data (pre @ raw # post) d sc si cc dc)
           = snd (read_generic_data (pre @ post) d sc si cc dc)
       \<and> set (filter is_warning (fst (read_generic_data (pre @ raw # post) d sc si cc dc)))
           \<subseteq> set (filter is_warning (fst (read_generic_data (pre @ post) d sc si cc dc)))"
proof -
  define init where
    "init = \<lparr> rawscore_dict = [], linecounter = 0, foundscores = 0, columnmax = 0 \<rparr>"
  define R :: "reader_state \<Rightarrow> reader_state \<Rightarrow> bool" where
    "R = (\<lambda>t t'. rawscore_dict t = rawscore_dict t' \<and> foundscores t = foundscores t'
                   \<and> columnmax t' \<le> columnmax t)"
  have skip: "read_line d sc si cc dc st raw =
                 Inr (st \<lparr> linecounter := linecounter st + 1,
                            columnmax := max (columnmax st) (length lsplits) \<rparr>)" for st
    by (rule read_line_skip[OF assms])
  have rel: "rel_sum (=) R (read_lines d sc si cc dc init (pre @ raw # post))
                           (read_lines d sc si cc dc init (pre @ post))"
  proof (cases "read_lines d sc si cc dc init pre")
    case (Inl e)
    then show ?thesis by (simp add: read_lines_append)
  next
    case (Inr st1)
    have "rel_sum (=) R
            (read_lines d sc si cc dc
               (st1 \<lparr> linecounter := linecounter st1 + 1,
                      columnmax := max (columnmax st1) (length lsplits) \<rparr>) post)
            (read_lines d sc si cc dc st1 post)"
      unfolding R_def by (rule read_lines_related) simp_all
    then show ?thesis using Inr by (simp add: read_lines_append skip)
  qed
  have res: "snd (read_generic_data (pre @ raw # post) d sc si cc dc)
           = snd (read_generic_data (pre @ post) d sc si cc dc)
       \<and> set (filter is_warning (fst (read_generic_data (pre @ raw # post) d sc si cc dc)))
           \<subseteq> set (filter is_warning (fst (read_generic_data (pre @ post) d sc si cc dc)))"
  proof (cases "read_lines d sc si cc dc init (pre @ raw # post)")
    case (Inl e)
    then have "read_lines d sc si cc dc init (pre @ post) = Inl e"
      using rel by (cases "read_lines d sc si cc dc init (pre @ post)") auto
    then show ?thesis
      using Inl unfolding read_generic_data_unfold init_def[symmetric]
      by (simp add: is_warning_def)
  next
    case (Inr t)
    then obtain t' where t': "read_lines d sc si cc dc init (pre @ post) = Inr t'"
      and r: "R t t'"
      using rel by (cases "read_lines d sc si cc dc init (pre @ post)") auto
    show ?thesis
      using Inr t' r unfolding read_generic_data_unfold init_def[symmetric] R_def
      by (auto simp: is_warning_def)
  qed
  show ?thesis using skip res by blast
qed

theorem bad_site_row_skipped_silently_witness:
  "py_strip ''residue,score'' \<noteq> [] \<and> hd (py_strip ''residue,score'') \<noteq> CHR ''#''
   \<and> py_split (py_strip ''residue,score'') '','' = Inr [''residue'', ''score'']
   \<and> py_index [''residue'', ''score''] 0 = Inr ''residue''
   \<and> int_float ''residue'' = Inl ValueError
   \<and> snd (read_generic_data ([''1,88.5''] @ ''residue,score'' # [''2,3'']) '','' 1 0 None ''A'')
       = snd (read_generic_data ([''1,88.5''] @ [''2,3'']) '','' 1 0 None ''A'')
   \<and> snd (read_generic_data ([''1,88.5''] @ [''2,3'']) '','' 1 0 None ''A'')
       = Inr [(''A'', [(1, Fin (177 / 2)), (2, Fin 3)])]"
proof -
  have h1: "py_strip ''residue,score'' \<noteq> []" by code_simp
  have h2: "hd (py_strip ''residue,score'') \<noteq> CHR ''#''" by code_simp
  have h3: "py_split (py_strip ''residue,score'') '','' = Inr [''residue'', ''score'']"
    by code_simp
  have h4: "py_index [''residue'', ''score''] 0 = Inr ''residue''" by code_simp
  have h5: "int_float ''residue'' = Inl ValueError" by code_simp
  have v: "snd (read_generic_data ([''1,88.5''] @ [''2,3'']) '','' 1 0 None ''A'')
       = Inr [(''A'', [(1, Fin (177 / 2)), (2, Fin 3)])]"
    by code_simp
  show ?thesis
    using bad_site_row_skipped_silently[OF h1 h2 h3 h4 h5, of 1 None "''A''" "[''1,88.5'']"
        "[''2,3'']"] h1 h2 h3 h4 h5 v
    by simp
qed

text \<open>
  C7 as stated fails: the header row \<^verbatim>\<open>residue,score\<close> is skipped and the messages of the
  run contain no warning.
\<close>

theorem skipped_row_no_warning_counterexample:
  "int_float ''residue'' = Inl ValueError
   \<and> read_generic_data [''residue,score'', ''1,88.5''] '','' 1 0 None ''A''
       = ([Reading 1 '','', Counted 2 1], Inr [(''A'', [(1, Fin (177 / 2))])])
   \<and> filter is_warning [Reading 1 '','', Counted 2 1] = []"
  by code_simp

text \<open>
  C10, as amended. A data row with a site column is skipped exactly when that column is
  not a float literal or is a NaN; a finite site value is truncated to the residue index,
  and an unparsable score column in such a row ends the run with \<^verbatim>\<open>ValueError\<close>.
\<close>

theorem row_skipped_iff_site_value_error:
  assumes "py_strip raw \<noteq> []" and "hd (py_strip raw) \<noteq> CHR ''#''"
    and "py_split (py_strip raw) d = Inr lsplits"
    and "py_index lsplits si = Inr sitecol"
  shows "(read_line d sc si cc dc st raw =
            Inr (st \<lparr> linecounter := linecounter st + 1,
                       columnmax := max (columnmax st) (length lsplits) \<rparr>)
          \<longleftrightarrow> parse_float sitecol = None \<or> parse_float sitecol = Some NaN)
       \<and> (\<forall>x. parse_float sitecol = Some (Fin x) \<longrightarrow>
             read_line d sc si cc dc st raw =
               store_row sc cc dc
                 (st \<lparr> linecounter := linecounter st + 1,
                       columnmax := max (columnmax st) (length lsplits) \<rparr>)
                 lsplits (py_int x))
       \<and> (\<forall>x scorecol. parse_float sitecol = Some (Fin x) \<longrightarrow>
             py_index lsplits sc = Inr scorecol \<longrightarrow> parse_float scorecol = None \<longrightarrow>
             read_line d sc si cc dc st raw = Inl ValueError)"
proof -
  define st1 where
    "st1 = st \<lparr> linecounter := linecounter st + 1,
                columnmax := max (columnmax st) (length lsplits) \<rparr>"
  note rl = read_line_data[OF assms, of sc cc dc st, folded st1_def]
  have f1: "foundscores st1 = foundscores st" by (simp add: st1_def)
  have fin: "parse_float sitecol = Some (Fin x) \<Longrightarrow>
               read_line d sc si cc dc st raw = store_row sc cc dc st1 lsplits (py_int x)" for x
    unfolding rl by (simp add: int_float_def int_of_float_def)
  have notskip: "parse_float sitecol = Some (Fin x) \<Longrightarrow>
               read_line d sc si cc dc st raw \<noteq> Inr st1" for x
  proof
    assume p: "parse_float sitecol = Some (Fin x)"
      and e: "read_line d sc si cc dc st raw = Inr st1"
    have "store_row sc cc dc st1 lsplits (py_int x) = Inr st1" using fin[OF p] e by simp
    then have "foundscores st1 = foundscores st1 + 1" by (rule store_row_found)
    then show False by simp
  qed
  have iff: "read_line d sc si cc dc st raw = Inr st1
          \<longleftrightarrow> parse_float sitecol = None \<or> parse_float sitecol = Some NaN"
  proof (cases "parse_float sitecol")
    case None
    then show ?thesis unfolding rl by (simp add: int_float_def)
  next
    case (Some f)
    show ?thesis
    proof (cases f)
      case (Fin x)
      then show ?thesis using notskip[of x] Some by simp
    next
      case PosInf
      then show ?thesis using Some unfolding rl by (simp add: int_float_def int_of_float_def)
    next
      case NegInf
      then show ?thesis using Some unfolding rl by (simp add: int_float_def int_of_float_def)
    next
      case NaN
      then show ?thesis using Some unfolding rl by (simp add: int_float_def int_of_float_def)
    qed
  qed
  have abort: "parse_float sitecol = Some (Fin x) \<Longrightarrow> py_index lsplits sc = Inr scorecol
        \<Longrightarrow> parse_float scorecol = None
        \<Longrightarrow> read_line d sc si cc dc st raw = Inl ValueError" for x scorecol
    using fin[of x] by (simp add: store_row_def)
  show ?thesis
    using iff fin abort unfolding st1_def by blast
qed

theorem row_skipped_iff_site_value_error_witness:
  "(py_strip ''abc,1'' \<noteq> [] \<and> hd (py_strip ''abc,1'') \<noteq> CHR ''#''
    \<and> py_split (py_strip ''abc,1'') '','' = Inr [''abc'', ''1'']
    \<and> py_index [''abc'', ''1''] 0 = Inr ''abc''
    \<and> parse_float ''abc'' = None
    \<and> read_line '','' 1 0 None ''A''
         \<lparr> rawscore_dict = [], linecounter = 0, foundscores = 0, columnmax = 0 \<rparr> ''abc,1''
        = Inr \<lparr> rawscore_dict = [], linecounter = 1, foundscores = 0, columnmax = 2 \<rparr>)
   \<and> (py_strip ''3.7,2'' \<noteq> [] \<and> hd (py_strip ''3.7,2'') \<noteq> CHR ''#''
    \<and> py_split (py_strip ''3.7,2'') '','' = Inr [''3.7'', ''2'']
    \<and> py_index [''3.7'', ''2''] 0 = Inr ''3.7''
    \<and> parse_float ''3.7'' = Some (Fin (37 / 10)) \<and> py_int (37 / 10) = 3
    \<and> read_line '','' 1 0 None ''A''
         \<lparr> rawscore_dict = [], linecounter = 0, foundscores = 0, columnmax = 0 \<rparr> ''3.7,2''
        = Inr \<lparr> rawscore_dict = [(''A'', [(3, Fin 2)])], linecounter = 1, foundscores = 1,
                columnmax = 2 \<rparr>)
   \<and> (py_strip ''1,x'' \<noteq> [] \<and> hd (py_strip ''1,x'') \<noteq> CHR ''#''
    \<and> py_split (py_strip ''1,x'') '','' = Inr [''1'', ''x'']
    \<and> py_index [''1'', ''x''] 0 = Inr ''1''
    \<and> parse_float ''1'' = Some (Fin 1)
    \<and> py_index [''1'', ''x''] 1 = Inr ''x'' \<and> parse_float ''x'' = None
    \<and> read_line '','' 1 0 None ''A''
         \<lparr> rawscore_dict = [], linecounter = 0, foundscores = 0, columnmax = 0 \<rparr> ''1,x''
        = Inl ValueError)"
proof -
  define init where
    "init = \<lparr> rawscore_dict = [], linecounter = 0, foundscores = 0, columnmax = 0 \<rparr>"
  have a1: "py_strip ''abc,1'' \<noteq> []" by code_simp
  have a2: "hd (py_strip ''abc,1'') \<noteq> CHR ''#''" by code_simp
  have a3: "py_split (py_strip ''abc,1'') '','' = Inr [''abc'', ''1'']" by code_simp
  have a4: "py_index [''abc'', ''1''] 0 = Inr ''abc''" by code_simp
  have a5: "parse_float ''abc'' = None" by code_simp
  have b1: "py_strip ''3.7,2'' \<noteq> []" by code_simp
  have b2: "hd (py_strip ''3.7,2'') \<noteq> CHR ''#''" by code_simp
  have b3: "py_split (py_strip ''3.7,2'') '','' = Inr [''3.7'', ''2'']" by code_simp
  have b4: "py_index [''3.7'', ''2''] 0 = Inr ''3.7''" by code_simp
  have b5: "parse_float ''3.7'' = Some (Fin (37 / 10))" by code_simp
  have b6: "py_int (37 / 10) = 3" by (simp add: py_int_def)
  have ra: "read_line '','' 1 0 None ''A''
         \<lparr> rawscore_dict = [], linecounter = 0, foundscores = 0, columnmax = 0 \<rparr> ''abc,1''
        = Inr \<lparr> rawscore_dict = [], linecounter = 1, foundscores = 0, columnmax = 2 \<rparr>"
    by code_simp
  have rb: "read_line '','' 1 0 None ''A''
         \<lparr> rawscore_dict = [], linecounter = 0, foundscores = 0, columnmax = 0 \<rparr> ''3.7,2''
        = Inr \<lparr> rawscore_dict = [(''A'', [(3, Fin 2)])], linecounter = 1, foundscores = 1,
                columnmax = 2 \<rparr>"
    by code_simp
  have rc: "read_line '','' 1 0 None ''A''
         \<lparr> rawscore_dict = [], linecounter = 0, foundscores = 0, columnmax = 0 \<rparr> ''1,x''
        = Inl ValueError"
    by code_simp
  have c1: "py_strip ''1,x'' \<noteq> []" by code_simp
  have c2: "hd (py_strip ''1,x'') \<noteq> CHR ''#''" by code_simp
  have c3: "py_split (py_strip ''1,x'') '','' = Inr [''1'', ''x'']" by code_simp
  have c4: "py_index [''1'', ''x''] 0 = Inr ''1''" by code_simp
  have c5: "parse_float ''1'' = Some (Fin 1)" by code_simp
  have c6: "py_index [''1'', ''x''] 1 = Inr ''x''" by code_simp
  have c7: "parse_float ''x'' = None" by code_simp
  show ?thesis
    using row_skipped_iff_site_value_error[OF a1 a2 a3 a4, of 1 None "''A''"
        "\<lparr> rawscore_dict = [], linecounter = 0, foundscores = 0, columnmax = 0 \<rparr>"]
      row_skipped_iff_site_value_error[OF b1 b2 b3 b4, of 1 None "''A''"
        "\<lparr> rawscore_dict = [], linecounter = 0, foundscores = 0, columnmax = 0 \<rparr>"]
      row_skipped_iff_site_value_error[OF c1 c2 c3 c4, of 1 None "''A''"
        "\<lparr> rawscore_dict = [], linecounter = 0, foundscores = 0, columnmax = 0 \<rparr>"]
      a1 a2 a3 a4 a5 b1 b2 b3 b4 b5 b6 c1 c2 c3 c4 c5 c6 c7 ra rb rc
    by simp
qed

text \<open>
  C10 as stated fails: \<^verbatim>\<open>nan\<close> parses as a float, and the row \<^verbatim>\<open>nan,4\<close> is skipped all the
  same: one score is counted for two data rows.
\<close>

theorem nan_site_skipped_counterexample:
  "parse_float ''nan'' = Some NaN
   \<and> read_generic_data [''nan,4'', ''2,5''] '','' 1 0 None ''A''
       = ([Reading 1 '','', Counted 2 1], Inr [(''A'', [(2, Fin 5)])])"
  by code_simp

end
